theory Spec2Isabelle
  imports Main
begin

section \<open>Data model\<close>

text \<open>
  The fields of a simple-git log line that the tracker reads (\<open>DefaultLogFields & ListLogLine\<close>):
  the result objects carry \<open>date\<close>, \<open>message\<close> and \<open>hash\<close>; a commit of the log has a
  \<open>body\<close> as well. \<open>message\<close> is the subject line, \<open>body\<close> the rest of the commit text.
\<close>

record change =
  date :: string
  message :: string
  hash :: string

record commit = change +
  body :: string

text \<open>\<open>LunariaConfig['tracking']\<close>: the part of the configuration the tracker reads.\<close>

record tracking =
  ignoredKeywords :: "string list"

text \<open>
  What the code can raise: a \<open>TypeError\<close> (a method called on \<open>undefined\<close>, or raised by
  the glob matcher), the \<open>SyntaxError\<close> of the \<open>RegExp\<close> constructor for keywords that do
  not form a regular expression, the fatal \<open>UncommittedFileFound\<close> condition for a path
  (the message is logged and the process exits), and a failure of the version-control
  query itself.
\<close>

datatype error = TypeError | SyntaxError | UncommittedFileFound string | GitError

section \<open>Strings and regular expressions of the source\<close>

text \<open>\<open>Array.prototype.join\<close> on strings.\<close>

fun join :: "string \<Rightarrow> string list \<Rightarrow> string" where
  "join sep [] = []"
| "join sep [x] = x"
| "join sep (x # y # ys) = x @ sep @ join sep (y # ys)"

text \<open>
  \<open>String.prototype.split\<close> with a one-character separator: the empty string gives one
  empty piece, and a trailing separator gives a trailing empty piece.
\<close>

fun split_str :: "char \<Rightarrow> string \<Rightarrow> string list" where
  "split_str sep [] = [[]]"
| "split_str sep (c # cs) =
     (if c = sep then [] # split_str sep cs
      else (case split_str sep cs of [] \<Rightarrow> [[c]] | w # ws \<Rightarrow> (c # w) # ws))"

text \<open>
  Case folding of the \<open>i\<close> flag on ASCII text: a lower-case letter is compared through its
  upper-case form, every other character is compared as it is.
\<close>

definition canonicalize :: "char \<Rightarrow> char" where
  "canonicalize c =
     (case map_of (zip ''abcdefghijklmnopqrstuvwxyz'' ''ABCDEFGHIJKLMNOPQRSTUVWXYZ'') c of
        Some u \<Rightarrow> u
      | None \<Rightarrow> c)"

fun starts_with :: "string \<Rightarrow> string \<Rightarrow> bool" where
  "starts_with [] s = True"
| "starts_with (p # ps) [] = False"
| "starts_with (p # ps) (c # cs) = (p = c \<and> starts_with ps cs)"

text \<open>A literal pattern found at some position of the subject (an unanchored search).\<close>

fun occurs_in :: "string \<Rightarrow> string \<Rightarrow> bool" where
  "occurs_in p [] = (p = [])"
| "occurs_in p (c # cs) = (starts_with p (c # cs) \<or> occurs_in p cs)"

definition occurs_in_i :: "string \<Rightarrow> string \<Rightarrow> bool" where
  "occurs_in_i p s = occurs_in (map canonicalize p) (map canonicalize s)"

text \<open>
  The alternation of literal pieces: the pieces of the fragment between the alternation
  bars, one of which occurs in \<open>s\<close> up to letter case. A fragment with no bar is one
  piece; the empty fragment is the one empty piece, which occurs in every subject.
\<close>

definition match_i :: "string \<Rightarrow> string \<Rightarrow> bool" where
  "match_i s fragment = list_ex (\<lambda>alt. occurs_in_i alt s) (split_str CHR ''|'' fragment)"

text \<open>
  The syntax characters of a regular expression other than the alternation bar. A plain
  fragment is made of ASCII characters that are not among them, and of alternation bars:
  every character of its pieces stands for itself.
\<close>

definition syntax_characters :: string where
  "syntax_characters = CHR 0x5C # ''^$.*+?()[]{}''"

definition plain_fragment :: "string \<Rightarrow> bool" where
  "plain_fragment fragment =
     list_all (\<lambda>c. if c = CHR ''|'' then True
                    else (of_char c :: nat) < 128 \<and> c \<notin> set syntax_characters) fragment"

text \<open>
  \<open>new RegExp(`(${fragment})`, 'i')\<close>, as the test \<open>s.match(re)\<close> of a subject once
  compiled. For a plain fragment the expression is the alternation of its literal pieces,
  and it always compiles. For every other fragment the result is that of the regular
  expression engine, which is outside the repository and taken as the parameter
  \<open>engine\<close>: the error the constructor raises, or the test of the compiled expression.
\<close>

definition RegExp_i ::
  "(string \<Rightarrow> error + (string \<Rightarrow> bool)) \<Rightarrow> string \<Rightarrow> error + (string \<Rightarrow> bool)" where
  "RegExp_i engine fragment =
     (if plain_fragment fragment then Inr (\<lambda>s. match_i s fragment) else engine fragment)"

text \<open>
  \<open>ignoredKeywordsRe\<close>: the configured keywords joined with the alternation bar
  (the source of the group of the regular expression).
\<close>

definition ignoredKeywordsRe :: "tracking \<Rightarrow> string" where
  "ignoredKeywordsRe t = join ''|'' (ignoredKeywords t)"

text \<open>
  The named groups of a match of \<open>trackerDirectivesRe\<close>,
  \<open>/(?<directive>@lunaria-track|@lunaria-ignore):(?<pathsOrGlobs>[^\n]+)?/\<close>.
  The second group is optional: it is \<open>undefined\<close> (here \<open>None\<close>) when no character
  other than a line feed follows the colon.
\<close>

record groups =
  directive :: string
  pathsOrGlobs :: "string option"

definition capture_pathsOrGlobs :: "string \<Rightarrow> string option" where
  "capture_pathsOrGlobs rest =
     (case takeWhile (\<lambda>c. c \<noteq> CHR 0x0A) rest of [] \<Rightarrow> None | g # gs \<Rightarrow> Some (g # gs))"

text \<open>
  \<open>body.match(trackerDirectivesRe)\<close>: the leftmost position where one of the two directive
  names and a colon start; the path list is the longest run without a line feed after it.
\<close>

fun match_trackerDirectivesRe :: "string \<Rightarrow> groups option" where
  "match_trackerDirectivesRe [] = None"
| "match_trackerDirectivesRe (c # cs) =
     (if starts_with ''@lunaria-track:'' (c # cs) then
        Some \<lparr>directive = ''@lunaria-track'',
              pathsOrGlobs = capture_pathsOrGlobs (drop (length ''@lunaria-track:'') (c # cs))\<rparr>
      else if starts_with ''@lunaria-ignore:'' (c # cs) then
        Some \<lparr>directive = ''@lunaria-ignore'',
              pathsOrGlobs = capture_pathsOrGlobs (drop (length ''@lunaria-ignore:'') (c # cs))\<rparr>
      else match_trackerDirectivesRe cs)"

section \<open>The tracked-commit resolver\<close>

text \<open>
  \<open>Array.prototype.find\<close> with a callback that may raise: the first element for which the
  callback is true, \<open>None\<close> (\<open>undefined\<close>) when there is none; an exception of the callback
  ends the search.
\<close>

fun find_js :: "('a \<Rightarrow> error + bool) \<Rightarrow> 'a list \<Rightarrow> error + 'a option" where
  "find_js cb [] = Inr None"
| "find_js cb (x # xs) =
     (case cb x of
        Inl e \<Rightarrow> Inl e
      | Inr True \<Rightarrow> Inr (Some x)
      | Inr False \<Rightarrow> find_js cb xs)"

text \<open>
  The callback of the inner \<open>find\<close> over the listed paths and globs. \<open>isMatch\<close> stands for
  \<open>picomatch.isMatch\<close>, a library outside the repository, taken as a parameter; it may raise.
  A directive that is neither of the two names makes the callback return \<open>undefined\<close>.
\<close>

definition pathOrGlob_cb ::
  "(string \<Rightarrow> string \<Rightarrow> error + bool) \<Rightarrow> string \<Rightarrow> string \<Rightarrow> string \<Rightarrow> error + bool" where
  "pathOrGlob_cb isMatch d path pathOrGlob =
     (if d = ''@lunaria-track'' then isMatch path pathOrGlob
      else if d = ''@lunaria-ignore'' then
        (case isMatch path pathOrGlob of Inl e \<Rightarrow> Inl e | Inr b \<Rightarrow> Inr (\<not> b))
      else Inr False)"

text \<open>
  The callback of \<open>commits.find\<close> in \<open>findLatestTrackedCommit\<close>; \<open>re\<close> is the test of the
  compiled \<open>ignoredKeywordsRe\<close>.
\<close>

definition tracked_cb ::
  "(string \<Rightarrow> string \<Rightarrow> error + bool) \<Rightarrow> (string \<Rightarrow> bool) \<Rightarrow> string \<Rightarrow> commit
     \<Rightarrow> error + bool" where
  "tracked_cb isMatch re path c =
     (if re (message c) then Inr False
      else
        (case match_trackerDirectivesRe (body c) of
           None \<Rightarrow> Inr True
         | Some g \<Rightarrow>
             (case pathsOrGlobs g of
                None \<Rightarrow> Inl TypeError
              | Some listed \<Rightarrow>
                  (case find_js (pathOrGlob_cb isMatch (directive g) path)
                          (split_str CHR '';'' listed) of
                     Inl e \<Rightarrow> Inl e
                   | Inr found \<Rightarrow> Inr (found \<noteq> None)))))"

text \<open>
  \<open>findLatestTrackedCommit\<close>: the regular expression of the keywords is built first, and
  a keyword list that does not compile ends the function before any commit is looked at.
\<close>

definition findLatestTrackedCommit ::
  "(string \<Rightarrow> error + (string \<Rightarrow> bool)) \<Rightarrow> (string \<Rightarrow> string \<Rightarrow> error + bool) \<Rightarrow> tracking
     \<Rightarrow> string \<Rightarrow> commit list \<Rightarrow> error + commit option" where
  "findLatestTrackedCommit engine isMatch t path commits =
     (case RegExp_i engine (ignoredKeywordsRe t) of
        Inl e \<Rightarrow> Inl e
      | Inr re \<Rightarrow> find_js (tracked_cb isMatch re path) commits)"

section \<open>The git instance\<close>

text \<open>
  The state of a \<open>LunariaGitInstance\<close> that the claims are about: the tracking
  configuration, the force flag and the in-memory cache. The cache is a plain object (the
  literal \<open>{}\<close> in force mode, the loaded contents otherwise): the field \<open>cache\<close> holds
  its own properties, from path to commit hash. Calls are taken one after the other.
\<close>

record git_instance =
  config :: tracking
  force :: bool
  cache :: "string \<Rightarrow> string option"

text \<open>
  The constructor. \<open>contents\<close> stands for \<open>new Cache(cacheDir, 'git', hash).contents\<close>,
  the mapping loaded from durable storage by a class outside the given sources; it is
  only used when the force flag is off.
\<close>

definition LunariaGitInstance :: "tracking \<Rightarrow> bool \<Rightarrow> (string \<Rightarrow> string option) \<Rightarrow> git_instance" where
  "LunariaGitInstance cfg f contents =
     \<lparr>config = cfg, force = f, cache = (if f then Map.empty else contents)\<rparr>"

text \<open>
  The properties a plain object inherits from \<open>Object.prototype\<close>, each with the text a
  template literal gives for its value: the functions print as native code, and
  \<open>__proto__\<close> answers the prototype object itself. All of these values are truthy.
\<close>

definition Object_prototype :: "string \<Rightarrow> string option" where
  "Object_prototype name =
     (if name = ''__proto__'' then Some ''[object Object]''
      else if name = ''constructor'' then Some ''function Object() { [native code] }''
      else if name \<in> set [''__defineGetter__'', ''__defineSetter__'', ''hasOwnProperty'',
                            ''__lookupGetter__'', ''__lookupSetter__'', ''isPrototypeOf'',
                            ''propertyIsEnumerable'', ''toString'', ''valueOf'',
                            ''toLocaleString'']
        then Some (''function '' @ name @ ''() { [native code] }'')
      else None)"

text \<open>
  The read \<open>this.#cache[path]\<close>, as the text of the value read: an own property of the
  cache first, an inherited one otherwise, \<open>undefined\<close> (\<open>None\<close>) when there is neither.
\<close>

definition cache_get :: "(string \<Rightarrow> string option) \<Rightarrow> string \<Rightarrow> string option" where
  "cache_get cch path = (case cch path of Some h \<Rightarrow> Some h | None \<Rightarrow> Object_prototype path)"

text \<open>
  The write \<open>this.#cache[path] = hash\<close>: it sets an own property, except under the name
  \<open>__proto__\<close> when the object has no own property of that name, where the inherited
  setter ignores a string.
\<close>

definition cache_set ::
  "(string \<Rightarrow> string option) \<Rightarrow> string \<Rightarrow> string \<Rightarrow> (string \<Rightarrow> string option)" where
  "cache_set cch path h =
     (if path = ''__proto__'' \<and> cch path = None then cch else cch(path \<mapsto> h))"

text \<open>
  The \<open>from\<close> option of the log query: the value read from the cache followed by a caret
  when that value is truthy (for a string, non-empty), \<open>undefined\<close> otherwise. The read is
  made whatever the force flag is.
\<close>

definition log_from :: "(string \<Rightarrow> string option) \<Rightarrow> string \<Rightarrow> string option" where
  "log_from cch path =
     (case cache_get cch path of
        None \<Rightarrow> None
      | Some h \<Rightarrow> (if h = [] then None else Some (h @ ''^'')))"

text \<open>\<open>log.latest\<close>: the first line of the log, \<open>null\<close> for an empty log.\<close>

definition latest :: "commit list \<Rightarrow> commit option" where
  "latest all = (case all of [] \<Rightarrow> None | c # cs \<Rightarrow> Some c)"

record changes =
  latestChange :: change
  latestTrackedChange :: change

text \<open>
  \<open>getFileLatestChanges\<close>. \<open>log\<close> stands for the query \<open>this.#git.log\<close> of the resolved
  path with the given \<open>from\<close> option (newest commit first); it may fail. The method returns
  the result together with the instance after the cache write, or the error that ends it:
  logging \<open>UncommittedFileFound.message(path)\<close> and exiting the process is the error
  \<open>UncommittedFileFound path\<close>. The two objects of the result are built from the fields
  of the two commits.
\<close>

definition getFileLatestChanges ::
  "(string \<Rightarrow> error + (string \<Rightarrow> bool)) \<Rightarrow> (string \<Rightarrow> string option \<Rightarrow> error + commit list)
     \<Rightarrow> (string \<Rightarrow> string \<Rightarrow> error + bool) \<Rightarrow> git_instance \<Rightarrow> string
     \<Rightarrow> error + (changes \<times> git_instance)" where
  "getFileLatestChanges engine log isMatch this path =
     (case log path (log_from (cache this) path) of
        Inl e \<Rightarrow> Inl e
      | Inr all \<Rightarrow>
          (let latestChange = latest all in
           case findLatestTrackedCommit engine isMatch (config this) path all of
             Inl e \<Rightarrow> Inl e
           | Inr found \<Rightarrow>
               (let latestTrackedChange = (case found of Some c \<Rightarrow> Some c | None \<Rightarrow> latestChange) in
                case (latestChange, latestTrackedChange) of
                  (Some lc, Some ltc) \<Rightarrow>
                    Inr (\<lparr>latestChange =
                            \<lparr>date = date lc, message = message lc, hash = hash lc\<rparr>,
                          latestTrackedChange =
                            \<lparr>date = date ltc, message = message ltc, hash = hash ltc\<rparr>\<rparr>,
                         (if force this then this
                          else this\<lparr>cache := cache_set (cache this) path (hash ltc)\<rparr>))
                | _ \<Rightarrow> Inl (UncommittedFileFound path))))"

text \<open>
  A run of the instance: \<open>getFileLatestChanges\<close> for each path in turn, every call on the
  instance the previous one left; the first error ends the run.
\<close>

fun getFileLatestChanges_each ::
  "(string \<Rightarrow> error + (string \<Rightarrow> bool)) \<Rightarrow> (string \<Rightarrow> string option \<Rightarrow> error + commit list)
     \<Rightarrow> (string \<Rightarrow> string \<Rightarrow> error + bool) \<Rightarrow> git_instance \<Rightarrow> string list
     \<Rightarrow> error + (changes list \<times> git_instance)" where
  "getFileLatestChanges_each engine log isMatch this [] = Inr ([], this)"
| "getFileLatestChanges_each engine log isMatch this (path # paths) =
     (case getFileLatestChanges engine log isMatch this path of
        Inl e \<Rightarrow> Inl e
      | Inr (r, this') \<Rightarrow>
          (case getFileLatestChanges_each engine log isMatch this' paths of
             Inl e \<Rightarrow> Inl e
           | Inr (rs, this'') \<Rightarrow> Inr (r # rs, this'')))"

section \<open>A linear history for the log query\<close>

text \<open>
  A reference model of the version-control backend on a history without merges: the
  commits of the repository newest first, each with the paths it touches. A revision is a
  commit hash, or a hash followed by a caret for the parent of that commit; a revision
  that names no commit makes the query fail. A query with a \<open>from\<close> revision lists the
  commits that are not reachable from it, a query without one lists them all; both keep
  only the commits touching the file.
\<close>

type_synonym repository = "(commit \<times> string list) list"

fun position_of :: "string \<Rightarrow> repository \<Rightarrow> nat option" where
  "position_of h [] = None"
| "position_of h ((c, ps) # r) =
     (if hash c = h then Some 0 else map_option Suc (position_of h r))"

definition rev_parse :: "repository \<Rightarrow> string \<Rightarrow> nat option" where
  "rev_parse r revision =
     (if revision \<noteq> [] \<and> last revision = CHR ''^'' then
        (case position_of (butlast revision) r of
           None \<Rightarrow> None
         | Some i \<Rightarrow> (if Suc i < length r then Some (Suc i) else None))
      else position_of revision r)"

definition touching :: "string \<Rightarrow> repository \<Rightarrow> commit list" where
  "touching file r = map fst (filter (\<lambda>(c, ps). file \<in> set ps) r)"

definition linear_log :: "repository \<Rightarrow> string \<Rightarrow> string option \<Rightarrow> error + commit list" where
  "linear_log r file from =
     (case from of
        None \<Rightarrow> Inr (touching file r)
      | Some revision \<Rightarrow>
          (case rev_parse r revision of
             None \<Rightarrow> Inl GitError
           | Some n \<Rightarrow> Inr (touching file (take n r))))"

text \<open>
  A stand-in for the glob matcher, used only to evaluate the examples: a pattern ending
  in \<open>/**\<close> matches the paths that start with that directory and a slash, any other
  non-empty pattern matches the path equal to it, and the empty pattern raises, as the
  library does.
\<close>

definition isMatch_simple :: "string \<Rightarrow> string \<Rightarrow> error + bool" where
  "isMatch_simple path glob =
     (if glob = [] then Inl TypeError
      else if starts_with (rev ''/**'') (rev glob)
        then Inr (starts_with (take (length glob - 2) glob) path)
      else Inr (path = glob))"

text \<open>
  A stand-in for the regular expression engine, used only to evaluate the examples on
  fragments that are not plain. It counts parentheses: the fragment \<open>fix (typo\<close>, whose
  parenthesis is never closed, is a syntax error. Otherwise a dot stands for any character
  but a line break and every other character for itself, up to letter case. This is the
  engine's answer on fragments made of literal characters, dots and alternation bars, and
  on such a fragment with one parenthesis added.
\<close>

fun starts_with_dot :: "string \<Rightarrow> string \<Rightarrow> bool" where
  "starts_with_dot [] s = True"
| "starts_with_dot (p # ps) [] = False"
| "starts_with_dot (p # ps) (c # cs) =
     ((if p = CHR ''.'' then c \<noteq> CHR 0x0A \<and> c \<noteq> CHR 0x0D
       else canonicalize p = canonicalize c)
      \<and> starts_with_dot ps cs)"

fun occurs_in_dot :: "string \<Rightarrow> string \<Rightarrow> bool" where
  "occurs_in_dot p [] = (p = [])"
| "occurs_in_dot p (c # cs) = (starts_with_dot p (c # cs) \<or> occurs_in_dot p cs)"

definition engine_simple :: "string \<Rightarrow> error + (string \<Rightarrow> bool)" where
  "engine_simple fragment =
     (if length (filter (\<lambda>c. c = CHR ''('') fragment)
           = length (filter (\<lambda>c. c = CHR '')'') fragment)
      then Inr (\<lambda>s. list_ex (\<lambda>alt. occurs_in_dot alt s) (split_str CHR ''|'' fragment))
      else Inl SyntaxError)"

section \<open>Example data\<close>

text \<open>
  A configuration with the two default keywords, a few commits and a repository of three
  of them, used to evaluate the definitions on concrete inputs.
\<close>

definition example_tracking :: tracking where
  "example_tracking = \<lparr>ignoredKeywords = [''lunaria-ignore'', ''fix typo'']\<rparr>"

definition commit_a1 :: commit where
  "commit_a1 = \<lparr>date = ''2024-05-01'', message = ''Add guide'', hash = ''a1'', body = []\<rparr>"

definition commit_b2 :: commit where
  "commit_b2 = \<lparr>date = ''2024-05-02'', message = ''Reword guide'', hash = ''b2'',
                 body = ''@lunaria-ignore:docs/guide.md''\<rparr>"

definition commit_c3 :: commit where
  "commit_c3 = \<lparr>date = ''2024-05-03'', message = ''Fix Typo in guide'', hash = ''c3'',
                 body = ''@lunaria-track:docs/guide.md''\<rparr>"

definition commit_d4 :: commit where
  "commit_d4 = \<lparr>date = ''2024-05-04'', message = ''@lunaria-track:docs/other.md'',
                 hash = ''d4'', body = []\<rparr>"

definition commit_e5 :: commit where
  "commit_e5 = \<lparr>date = ''2024-05-05'', message = ''Add guide'', hash = ''e5'',
                 body = ''this is not a fix typo''\<rparr>"

definition commit_f6 :: commit where
  "commit_f6 = \<lparr>date = ''2024-05-06'', message = ''Reformat'', hash = ''f6'',
                 body = ''@lunaria-ignore:docs/**;src/**''\<rparr>"

definition commit_g7 :: commit where
  "commit_g7 = \<lparr>date = ''2024-05-07'', message = ''Reformat'', hash = ''g7'',
                 body = ''@lunaria-track:\<newline>see the previous commit''\<rparr>"

definition example_repository :: repository where
  "example_repository =
     [(commit_c3, [''docs/guide.md'']),
      (commit_b2, [''docs/guide.md'', ''src/index.ts'']),
      (commit_a1, [''docs/guide.md''])]"

definition example_fresh :: git_instance where
  "example_fresh = LunariaGitInstance example_tracking False Map.empty"

definition example_cached :: git_instance where
  "example_cached = LunariaGitInstance example_tracking False [''docs/guide.md'' \<mapsto> ''b2'']"

definition example_forced :: git_instance where
  "example_forced = LunariaGitInstance example_tracking True [''docs/guide.md'' \<mapsto> ''b2'']"

definition example_no_keywords :: git_instance where
  "example_no_keywords = LunariaGitInstance \<lparr>ignoredKeywords = []\<rparr> False Map.empty"

definition example_bad_keyword :: git_instance where
  "example_bad_keyword =
     LunariaGitInstance \<lparr>ignoredKeywords = [''lunaria-ignore'', ''fix (typo'']\<rparr> False Map.empty"

definition example_pattern_keyword :: tracking where
  "example_pattern_keyword = \<lparr>ignoredKeywords = [''lunaria-ignore'', ''fix.typo'']\<rparr>"

text \<open>The tests of the regular expressions compiled from the two keyword lists.\<close>

definition example_re :: "string \<Rightarrow> bool" where
  "example_re s = match_i s ''lunaria-ignore|fix typo''"

definition example_pattern_re :: "string \<Rightarrow> bool" where
  "example_pattern_re s =
     list_ex (\<lambda>alt. occurs_in_dot alt s) (split_str CHR ''|'' ''lunaria-ignore|fix.typo'')"

section \<open>Properties of the helper functions\<close>

lemma find_js_all_False:
  "list_all (\<lambda>x. cb x = Inr False) xs \<Longrightarrow> find_js cb xs = Inr None"
  by (induction xs) simp_all

lemma find_js_Some:
  "find_js cb xs = Inr (Some x) \<Longrightarrow> x \<in> set xs \<and> cb x = Inr True"
  by (induction xs) (auto split: sum.splits bool.splits)

text \<open>With a callback that never raises, \<open>find_js\<close> is the library's \<open>find\<close>.\<close>

lemma find_js_total:
  "list_all (\<lambda>x. cb x = Inr (p x)) xs \<Longrightarrow> find_js cb xs = Inr (List.find p xs)"
  by (induction xs) simp_all

lemma split_str_not_Nil: "split_str sep s \<noteq> []"
  by (induction s) (auto split: list.splits)

lemma split_str_append_sep:
  "split_str sep (x @ sep # y) = split_str sep x @ split_str sep y"
proof (induction x)
  case Nil
  show ?case by simp
next
  case (Cons c x)
  obtain w ws where "split_str sep x = w # ws"
    using split_str_not_Nil [of sep x] by (cases "split_str sep x") auto
  with Cons show ?case by simp
qed

text \<open>
  The pieces of the joined keywords are the pieces of the keywords, as long as there is
  a keyword at all.
\<close>

lemma split_str_join:
  "ks \<noteq> [] \<Longrightarrow> set (split_str sep (join [sep] ks)) = (\<Union>k\<in>set ks. set (split_str sep k))"
proof (induction "[sep]" ks rule: join.induct)
  case 1
  then show ?case by simp
next
  case (2 x)
  then show ?case by simp
next
  case (3 x y ys)
  then show ?case by (simp add: split_str_append_sep)
qed

text \<open>
  So the alternation of a non-empty keyword list occurs in a message exactly when the
  alternation of one of the keywords does.
\<close>

lemma match_i_join:
  "ks \<noteq> [] \<Longrightarrow> match_i s (join ''|'' ks) = (\<exists>k\<in>set ks. match_i s k)"
  by (auto simp: match_i_def list_ex_iff split_str_join)

lemma occurs_in_Nil: "occurs_in [] s"
  by (induction s) simp_all

text \<open>The empty fragment matches every subject.\<close>

lemma match_i_empty: "match_i s []"
  by (simp add: match_i_def occurs_in_i_def occurs_in_Nil)

lemma plain_fragment_append:
  "plain_fragment (x @ y) = (plain_fragment x \<and> plain_fragment y)"
  by (simp add: plain_fragment_def)

text \<open>Plain keywords join to a plain fragment.\<close>

lemma plain_fragment_join:
  "list_all plain_fragment ks \<Longrightarrow> plain_fragment (join ''|'' ks)"
proof (induction "''|''" ks rule: join.induct)
  case 1
  show ?case by (simp add: plain_fragment_def)
next
  case (2 x)
  then show ?case by simp
next
  case (3 x y ys)
  then show ?case by (simp add: plain_fragment_def)
qed

lemma RegExp_i_plain:
  "plain_fragment fragment \<Longrightarrow> RegExp_i engine fragment = Inr (\<lambda>s. match_i s fragment)"
  by (simp add: RegExp_i_def)

section \<open>Properties of the resolver\<close>

lemma tracked_cb_vetoed:
  "re (message c) \<Longrightarrow> tracked_cb isMatch re path c = Inr False"
  by (simp add: tracked_cb_def)

lemma tracked_cb_no_directive:
  "\<not> re (message c) \<Longrightarrow> match_trackerDirectivesRe (body c) = None
     \<Longrightarrow> tracked_cb isMatch re path c = Inr True"
  by (simp add: tracked_cb_def)

text \<open>
  A directive whose path list was not captured makes the callback raise: \<open>split\<close> is
  called on \<open>undefined\<close>.
\<close>

lemma tracked_cb_no_paths:
  "\<not> re (message c) \<Longrightarrow> match_trackerDirectivesRe (body c) = Some g
     \<Longrightarrow> pathsOrGlobs g = None \<Longrightarrow> tracked_cb isMatch re path c = Inl TypeError"
  by (simp add: tracked_cb_def)

text \<open>
  What the two directives decide when the matcher raises on none of the listed globs
  (\<open>m\<close> is its answer): a \<open>@lunaria-track\<close> commit is tracked when the path matches some
  listed glob, a \<open>@lunaria-ignore\<close> commit is tracked when the path fails to match some
  listed glob.
\<close>

lemma tracked_cb_track_iff:
  assumes "\<not> re (message c)"
    and "match_trackerDirectivesRe (body c)
           = Some \<lparr>directive = ''@lunaria-track'', pathsOrGlobs = Some listed\<rparr>"
    and "list_all (\<lambda>x. isMatch path x = Inr (m x)) (split_str CHR '';'' listed)"
  shows "tracked_cb isMatch re path c = Inr (\<exists>x\<in>set (split_str CHR '';'' listed). m x)"
proof -
  have "list_all (\<lambda>x. pathOrGlob_cb isMatch ''@lunaria-track'' path x = Inr (m x))
          (split_str CHR '';'' listed)"
    using assms(3) by (simp add: pathOrGlob_cb_def)
  then have "find_js (pathOrGlob_cb isMatch ''@lunaria-track'' path) (split_str CHR '';'' listed)
               = Inr (List.find m (split_str CHR '';'' listed))"
    by (rule find_js_total)
  then show ?thesis using assms(1,2) by (simp add: tracked_cb_def find_None_iff Bex_def)
qed

lemma tracked_cb_ignore_iff:
  assumes "\<not> re (message c)"
    and "match_trackerDirectivesRe (body c)
           = Some \<lparr>directive = ''@lunaria-ignore'', pathsOrGlobs = Some listed\<rparr>"
    and "list_all (\<lambda>x. isMatch path x = Inr (m x)) (split_str CHR '';'' listed)"
  shows "tracked_cb isMatch re path c = Inr (\<exists>x\<in>set (split_str CHR '';'' listed). \<not> m x)"
proof -
  have "list_all (\<lambda>x. pathOrGlob_cb isMatch ''@lunaria-ignore'' path x = Inr (\<not> m x))
          (split_str CHR '';'' listed)"
    using assms(3) by (simp add: pathOrGlob_cb_def list_all_iff)
  then have "find_js (pathOrGlob_cb isMatch ''@lunaria-ignore'' path) (split_str CHR '';'' listed)
               = Inr (List.find (\<lambda>x. \<not> m x) (split_str CHR '';'' listed))"
    by (rule find_js_total)
  then show ?thesis using assms(1,2) by (simp add: tracked_cb_def find_None_iff Bex_def)
qed

lemma findLatestTrackedCommit_compiled:
  "RegExp_i engine (ignoredKeywordsRe t) = Inr re \<Longrightarrow>
     findLatestTrackedCommit engine isMatch t path commits
       = find_js (tracked_cb isMatch re path) commits"
  by (simp add: findLatestTrackedCommit_def)

lemma findLatestTrackedCommit_raises:
  "RegExp_i engine (ignoredKeywordsRe t) = Inl e \<Longrightarrow>
     findLatestTrackedCommit engine isMatch t path commits = Inl e"
  by (simp add: findLatestTrackedCommit_def)

lemma findLatestTrackedCommit_Some:
  "findLatestTrackedCommit engine isMatch t path commits = Inr (Some c) \<Longrightarrow>
     c \<in> set commits
     \<and> (\<exists>re. RegExp_i engine (ignoredKeywordsRe t) = Inr re
              \<and> tracked_cb isMatch re path c = Inr True)"
  by (auto simp: findLatestTrackedCommit_def split: sum.splits dest: find_js_Some)

text \<open>
  When the keywords compile to an expression that matches none of the messages, a
  sequence without directives resolves to its newest commit; so it does for plain
  keywords, at least one of them, none of which occurs in a message.
\<close>

lemma findLatestTrackedCommit_newest:
  assumes "RegExp_i engine (ignoredKeywordsRe t) = Inr re"
    and "commits \<noteq> []"
    and "\<forall>c\<in>set commits. match_trackerDirectivesRe (body c) = None"
    and "\<forall>c\<in>set commits. \<not> re (message c)"
  shows "findLatestTrackedCommit engine isMatch t path commits = Inr (Some (hd commits))"
proof -
  obtain c cs where cs: "commits = c # cs" using assms(2) by (cases commits) auto
  have "tracked_cb isMatch re path c = Inr True"
    using assms(3,4) cs by (simp add: tracked_cb_no_directive)
  then show ?thesis using assms(1) by (simp add: findLatestTrackedCommit_def cs)
qed

lemma findLatestTrackedCommit_newest_plain:
  assumes "ignoredKeywords t \<noteq> []"
    and "list_all plain_fragment (ignoredKeywords t)"
    and "commits \<noteq> []"
    and "\<forall>c\<in>set commits. match_trackerDirectivesRe (body c) = None"
    and "\<forall>c\<in>set commits. \<forall>k\<in>set (ignoredKeywords t). \<not> match_i (message c) k"
  shows "findLatestTrackedCommit engine isMatch t path commits = Inr (Some (hd commits))"
proof -
  have r: "RegExp_i engine (ignoredKeywordsRe t) = Inr (\<lambda>s. match_i s (ignoredKeywordsRe t))"
    using assms(2) by (simp add: RegExp_i_plain ignoredKeywordsRe_def plain_fragment_join)
  have "\<forall>c\<in>set commits. \<not> match_i (message c) (ignoredKeywordsRe t)"
    using assms(1,5) by (simp add: ignoredKeywordsRe_def match_i_join)
  then show ?thesis using findLatestTrackedCommit_newest [OF r assms(3,4)] by simp
qed

text \<open>The example configuration is plain, so its expression is the literal alternation.\<close>

lemma example_tracking_compiled:
  "RegExp_i engine (ignoredKeywordsRe example_tracking) = Inr example_re"
proof -
  have "plain_fragment (ignoredKeywordsRe example_tracking)" by code_simp
  moreover have "ignoredKeywordsRe example_tracking = ''lunaria-ignore|fix typo''" by code_simp
  ultimately show ?thesis by (simp add: RegExp_i_def example_re_def [abs_def])
qed

text \<open>
  Claim C1: for every non-empty commit sequence in which no body contains a tracker
  directive and no message matches any configured ignored keyword, the resolver returns
  the newest commit. With no keyword configured the code does otherwise: the one commit
  \<open>commit_a1\<close> has no directive, no keyword is configured, and the resolver returns
  nothing.
\<close>

theorem findLatestTrackedCommit_no_keywords_newest_lost:
  "findLatestTrackedCommit engine isMatch_simple \<lparr>ignoredKeywords = []\<rparr> ''docs/guide.md''
     [commit_a1] = Inr None"
  by (simp add: findLatestTrackedCommit_def ignoredKeywordsRe_def RegExp_i_def plain_fragment_def
      tracked_cb_def match_i_empty)


lemma example_pattern_compiled:
  "RegExp_i engine_simple (ignoredKeywordsRe example_pattern_keyword) = Inr example_pattern_re"
proof -
  have "\<not> plain_fragment (ignoredKeywordsRe example_pattern_keyword)" by code_simp
  moreover have "ignoredKeywordsRe example_pattern_keyword = ''lunaria-ignore|fix.typo''"
    by code_simp
  ultimately show ?thesis
    by (simp add: RegExp_i_def engine_simple_def example_pattern_re_def [abs_def])
qed

lemma example_bad_keyword_raises:
  "RegExp_i engine_simple (ignoredKeywordsRe (config example_bad_keyword)) = Inl SyntaxError"
proof -
  have "\<not> plain_fragment (ignoredKeywordsRe (config example_bad_keyword))" by code_simp
  moreover have "ignoredKeywordsRe (config example_bad_keyword) = ''lunaria-ignore|fix (typo''"
    by code_simp
  ultimately show ?thesis by (simp add: RegExp_i_def engine_simple_def)
qed



text \<open>
  Claim C3: a commit whose first directive is \<open>@lunaria-ignore\<close> is tracked only if the
  path matches none of the listed globs; with two globs of which the path matches one,
  the commit is not tracked and the scan goes on. The code does otherwise: the path
  \<open>docs/guide.md\<close> matches \<open>docs/**\<close>, the first of the two globs of \<open>commit_f6\<close>, and
  the resolver returns \<open>commit_f6\<close> instead of going on to \<open>commit_a1\<close>.
\<close>

theorem ignore_directive_two_globs_returned:
  "isMatch_simple ''docs/guide.md'' ''docs/**'' = Inr True
   \<and> match_trackerDirectivesRe (body commit_f6)
       = Some \<lparr>directive = ''@lunaria-ignore'', pathsOrGlobs = Some ''docs/**;src/**''\<rparr>
   \<and> findLatestTrackedCommit engine isMatch_simple example_tracking ''docs/guide.md''
        [commit_f6, commit_a1] = Inr (Some commit_f6)"
proof -
  have "isMatch_simple ''docs/guide.md'' ''docs/**'' = Inr True
   \<and> match_trackerDirectivesRe (body commit_f6)
       = Some \<lparr>directive = ''@lunaria-ignore'', pathsOrGlobs = Some ''docs/**;src/**''\<rparr>
   \<and> find_js (tracked_cb isMatch_simple example_re ''docs/guide.md'') [commit_f6, commit_a1]
       = Inr (Some commit_f6)"
    by code_simp
  then show ?thesis
    by (simp add: findLatestTrackedCommit_compiled [OF example_tracking_compiled])
qed

text \<open>
  Claim C4: a commit whose body has directive syntax that cannot be parsed, such as
  \<open>@lunaria-track:\<close> followed at once by a line break, is treated as having no directive:
  it is returned, and nothing is raised. The code does otherwise: the regular expression
  matches the body of \<open>commit_g7\<close> with no path list captured, and the resolver raises a
  \<open>TypeError\<close>.
\<close>

theorem directive_without_paths_raises:
  "match_trackerDirectivesRe (body commit_g7)
     = Some \<lparr>directive = ''@lunaria-track'', pathsOrGlobs = None\<rparr>
   \<and> findLatestTrackedCommit engine isMatch_simple example_tracking ''docs/guide.md''
        [commit_g7, commit_a1] = Inl TypeError"
proof -
  have "match_trackerDirectivesRe (body commit_g7)
     = Some \<lparr>directive = ''@lunaria-track'', pathsOrGlobs = None\<rparr>
   \<and> find_js (tracked_cb isMatch_simple example_re ''docs/guide.md'') [commit_g7, commit_a1]
       = Inl TypeError"
    by code_simp
  then show ?thesis
    by (simp add: findLatestTrackedCommit_compiled [OF example_tracking_compiled])
qed

section \<open>Properties of the git instance\<close>

lemma getFileLatestChanges_force:
  "force this \<Longrightarrow> getFileLatestChanges engine log isMatch this path = Inr (r, this')
     \<Longrightarrow> this' = this"
  by (auto simp: getFileLatestChanges_def Let_def split: sum.splits option.splits)

text \<open>The method reads the log only through the one query it makes.\<close>

lemma getFileLatestChanges_query:
  "log path (log_from (cache this) path) = log' path (log_from (cache this) path)
     \<Longrightarrow> getFileLatestChanges engine log isMatch this path
          = getFileLatestChanges engine log' isMatch this path"
  by (simp add: getFileLatestChanges_def)

lemma example_log:
  "linear_log example_repository ''docs/guide.md''
      (log_from (cache example_fresh) ''docs/guide.md'')
     = Inr [commit_c3, commit_b2, commit_a1]"
proof -
  have "log_from (cache example_fresh) ''docs/guide.md'' = None" by code_simp
  moreover have "linear_log example_repository ''docs/guide.md'' None
                   = Inr [commit_c3, commit_b2, commit_a1]"
    by code_simp
  ultimately show ?thesis by simp
qed

lemma example_found:
  "findLatestTrackedCommit engine isMatch_simple example_tracking ''docs/guide.md''
     [commit_c3, commit_b2, commit_a1] = Inr (Some commit_a1)"
proof -
  have "find_js (tracked_cb isMatch_simple example_re ''docs/guide.md'')
          [commit_c3, commit_b2, commit_a1] = Inr (Some commit_a1)"
    by code_simp
  then show ?thesis
    by (simp add: findLatestTrackedCommit_compiled [OF example_tracking_compiled])
qed

text \<open>
  Claim C5: for every non-empty commit sequence, the \<open>latestTrackedChange\<close> of the result
  is taken from a commit of that sequence, never made up, and it is the newest commit
  when the resolver returns nothing. For a non-empty log the method returns a result
  whenever the resolver does not raise: \<open>latestChange\<close> carries the date, message and hash
  of the newest commit, and \<open>latestTrackedChange\<close> those of a commit \<open>c\<close> of the log, the
  one the resolver found, or the newest one when it found none. An exception of the
  resolver is the only other outcome.
\<close>

theorem latestTrackedChange_from_log:
  assumes "log path (log_from (cache this) path) = Inr all" and "all \<noteq> []"
  shows "(\<forall>found. findLatestTrackedCommit engine isMatch (config this) path all = Inr found \<longrightarrow>
            (\<exists>r this' c. getFileLatestChanges engine log isMatch this path = Inr (r, this')
               \<and> latestChange r
                   = \<lparr>date = date (hd all), message = message (hd all), hash = hash (hd all)\<rparr>
               \<and> c = (case found of None \<Rightarrow> hd all | Some c' \<Rightarrow> c')
               \<and> c \<in> set all
               \<and> latestTrackedChange r = \<lparr>date = date c, message = message c, hash = hash c\<rparr>))
       \<and> (\<forall>e. findLatestTrackedCommit engine isMatch (config this) path all = Inl e \<longrightarrow>
            getFileLatestChanges engine log isMatch this path = Inl e)"
proof -
  obtain c0 cs where all: "all = c0 # cs" using assms(2) by (cases all) auto
  show ?thesis
  proof (intro conjI allI impI)
    fix found
    assume f: "findLatestTrackedCommit engine isMatch (config this) path all = Inr found"
    have mem: "(case found of None \<Rightarrow> hd all | Some c' \<Rightarrow> c') \<in> set all"
      using f findLatestTrackedCommit_Some [of engine isMatch "config this" path all]
      by (cases found) (simp_all add: all)
    show "\<exists>r this' c. getFileLatestChanges engine log isMatch this path = Inr (r, this')
               \<and> latestChange r
                   = \<lparr>date = date (hd all), message = message (hd all), hash = hash (hd all)\<rparr>
               \<and> c = (case found of None \<Rightarrow> hd all | Some c' \<Rightarrow> c')
               \<and> c \<in> set all
               \<and> latestTrackedChange r = \<lparr>date = date c, message = message c, hash = hash c\<rparr>"
      using assms(1) f mem unfolding all
      by (cases found) (simp_all add: getFileLatestChanges_def latest_def)
  next
    fix e
    assume "findLatestTrackedCommit engine isMatch (config this) path all = Inl e"
    then show "getFileLatestChanges engine log isMatch this path = Inl e"
      using assms(1) by (simp add: getFileLatestChanges_def)
  qed
qed

theorem latestTrackedChange_from_log_witness:
  "linear_log example_repository ''docs/guide.md''
      (log_from (cache example_fresh) ''docs/guide.md'')
     = Inr [commit_c3, commit_b2, commit_a1]
   \<and> [commit_c3, commit_b2, commit_a1] \<noteq> []
   \<and> findLatestTrackedCommit engine_simple isMatch_simple (config example_fresh) ''docs/guide.md''
        [commit_c3, commit_b2, commit_a1] = Inr (Some commit_a1)
   \<and> (\<exists>r this'. getFileLatestChanges engine_simple (linear_log example_repository)
                    isMatch_simple example_fresh ''docs/guide.md'' = Inr (r, this')
          \<and> latestChange r
              = \<lparr>date = ''2024-05-03'', message = ''Fix Typo in guide'', hash = ''c3''\<rparr>
          \<and> latestTrackedChange r
              = \<lparr>date = ''2024-05-01'', message = ''Add guide'', hash = ''a1''\<rparr>)"
proof -
  have n: "[commit_c3, commit_b2, commit_a1] \<noteq> []" by simp
  have c: "config example_fresh = example_tracking"
    by (simp add: example_fresh_def LunariaGitInstance_def)
  have f: "findLatestTrackedCommit engine_simple isMatch_simple (config example_fresh)
             ''docs/guide.md'' [commit_c3, commit_b2, commit_a1] = Inr (Some commit_a1)"
    using example_found c by simp
  have d: "date commit_c3 = ''2024-05-03'' \<and> message commit_c3 = ''Fix Typo in guide''
           \<and> hash commit_c3 = ''c3'' \<and> date commit_a1 = ''2024-05-01''
           \<and> message commit_a1 = ''Add guide'' \<and> hash commit_a1 = ''a1''"
    by (simp add: commit_c3_def commit_a1_def)
  show ?thesis
    using latestTrackedChange_from_log [of "linear_log example_repository" "''docs/guide.md''"
        example_fresh "[commit_c3, commit_b2, commit_a1]" engine_simple isMatch_simple]
      example_log n f d
    by auto
qed

text \<open>
  Claim C6, as stated: when the history query of a path returns no commit, the method
  signals the fatal no-history error. The regular expression of the keywords is built
  before the check for an empty history: with the keyword \<open>fix (typo\<close>, which does not
  compile, and an empty log, the method ends with the \<open>SyntaxError\<close> of the constructor.
\<close>

theorem empty_log_with_bad_keyword_raises_SyntaxError:
  "linear_log example_repository ''README.md''
      (log_from (cache example_bad_keyword) ''README.md'') = Inr []
   \<and> getFileLatestChanges engine_simple (linear_log example_repository) isMatch_simple
        example_bad_keyword ''README.md'' = Inl SyntaxError"
proof -
  have "log_from (cache example_bad_keyword) ''README.md'' = None" by code_simp
  moreover have "linear_log example_repository ''README.md'' None = Inr []" by code_simp
  ultimately have e: "linear_log example_repository ''README.md''
      (log_from (cache example_bad_keyword) ''README.md'') = Inr []"
    by simp
  then show ?thesis
    by (simp add: getFileLatestChanges_def
        findLatestTrackedCommit_raises [OF example_bad_keyword_raises])
qed

text \<open>
  Claim C6, amended: when the history query of a path returns no commit, the method never
  returns a result. It ends with the fatal no-history error naming the path whenever the
  configured keywords compile to a regular expression, and with the error of the
  \<open>RegExp\<close> constructor when they do not.
\<close>

theorem empty_log_is_fatal:
  assumes "log path (log_from (cache this) path) = Inr []"
  shows "(\<forall>re. RegExp_i engine (ignoredKeywordsRe (config this)) = Inr re \<longrightarrow>
            getFileLatestChanges engine log isMatch this path = Inl (UncommittedFileFound path))
       \<and> (\<forall>e. RegExp_i engine (ignoredKeywordsRe (config this)) = Inl e \<longrightarrow>
            getFileLatestChanges engine log isMatch this path = Inl e)
       \<and> (\<forall>r this'. getFileLatestChanges engine log isMatch this path \<noteq> Inr (r, this'))"
  using assms
  by (auto simp: getFileLatestChanges_def findLatestTrackedCommit_def latest_def
      split: sum.splits)

theorem empty_log_is_fatal_witness:
  "linear_log example_repository ''README.md'' (log_from (cache example_fresh) ''README.md'')
     = Inr []
   \<and> RegExp_i engine_simple (ignoredKeywordsRe (config example_fresh)) = Inr example_re
   \<and> getFileLatestChanges engine_simple (linear_log example_repository) isMatch_simple
        example_fresh ''README.md'' = Inl (UncommittedFileFound ''README.md'')"
proof -
  have "log_from (cache example_fresh) ''README.md'' = None" by code_simp
  moreover have "linear_log example_repository ''README.md'' None = Inr []" by code_simp
  ultimately have e: "linear_log example_repository ''README.md''
             (log_from (cache example_fresh) ''README.md'') = Inr []"
    by simp
  have c: "RegExp_i engine_simple (ignoredKeywordsRe (config example_fresh)) = Inr example_re"
    using example_tracking_compiled [of engine_simple]
    by (simp add: example_fresh_def LunariaGitInstance_def)
  show ?thesis
    using e c empty_log_is_fatal [of "linear_log example_repository" "''README.md''"
        example_fresh engine_simple isMatch_simple]
    by blast
qed

section \<open>The checkpoint of the cache\<close>

lemma position_of_Some:
  "position_of h r = Some i \<Longrightarrow> i < length r \<and> hash (fst (r ! i)) = h"
proof (induction r arbitrary: i)
  case Nil
  then show ?case by simp
next
  case (Cons x r)
  obtain c ps where x: "x = (c, ps)" by (cases x)
  show ?case using Cons x by (cases i) (auto split: if_splits)
qed

lemma touching_append: "touching file (r @ r') = touching file r @ touching file r'"
  by (simp add: touching_def)

lemma rev_parse_parent:
  "position_of h r = Some i \<Longrightarrow> Suc i < length r \<Longrightarrow> rev_parse r (h @ ''^'') = Some (Suc i)"
  by (simp add: rev_parse_def)

text \<open>
  Claim C7, as stated: with a cached checkpoint hash the history is requested strictly
  after the checkpoint, so the returned sequence holds only commits newer than it. The
  code asks for the history from the parent of the checkpoint: with \<open>commit_b2\<close> cached for
  the path, the returned sequence ends with \<open>commit_b2\<close> itself.
\<close>

theorem checkpoint_in_requested_history:
  "cache example_cached ''docs/guide.md'' = Some (hash commit_b2)
   \<and> log_from (cache example_cached) ''docs/guide.md'' = Some ''b2^''
   \<and> linear_log example_repository ''docs/guide.md''
        (log_from (cache example_cached) ''docs/guide.md'') = Inr [commit_c3, commit_b2]"
  by (simp add: example_repository_def example_cached_def commit_a1_def commit_b2_def
      commit_c3_def LunariaGitInstance_def log_from_def cache_get_def linear_log_def
      rev_parse_def touching_def)

text \<open>
  Claim C7, amended: with a non-empty cached hash \<open>h\<close> for the path, the lower bound of
  the query is \<open>h^\<close>, the parent of the checkpoint, and the method reads nothing else of
  the log. On a linear history where the checkpoint has a parent, the returned sequence
  is made of the commits newer than the checkpoint followed by the checkpoint itself,
  each kept when it touches the path.
\<close>

theorem log_from_checkpoint_parent:
  assumes "cache this path = Some h" and "h \<noteq> []"
  shows "log_from (cache this) path = Some (h @ ''^'')
    \<and> getFileLatestChanges engine log isMatch this path
        = getFileLatestChanges engine (\<lambda>p f. log p (Some (h @ ''^''))) isMatch this path
    \<and> (\<forall>r i. position_of h r = Some i \<and> Suc i < length r \<longrightarrow>
          hash (fst (r ! i)) = h
          \<and> linear_log r path (log_from (cache this) path)
              = Inr (touching path (take i r) @ touching path [r ! i]))"
proof -
  have f: "log_from (cache this) path = Some (h @ ''^'')"
    using assms by (simp add: log_from_def cache_get_def)
  have q: "getFileLatestChanges engine log isMatch this path
        = getFileLatestChanges engine (\<lambda>p f. log p (Some (h @ ''^''))) isMatch this path"
    by (rule getFileLatestChanges_query) (simp add: f)
  have l: "hash (fst (r ! i)) = h
          \<and> linear_log r path (log_from (cache this) path)
              = Inr (touching path (take i r) @ touching path [r ! i])"
    if p: "position_of h r = Some i" and s: "Suc i < length r" for r i
  proof -
    have i: "i < length r" and hh: "hash (fst (r ! i)) = h"
      using position_of_Some [OF p] by simp_all
    have "take (Suc i) r = take i r @ [r ! i]" using i by (rule take_Suc_conv_app_nth)
    then have "touching path (take (Suc i) r) = touching path (take i r) @ touching path [r ! i]"
      by (simp add: touching_append)
    then show ?thesis using hh f rev_parse_parent [OF p s] by (simp add: linear_log_def)
  qed
  show ?thesis using f q l by blast
qed

theorem log_from_checkpoint_parent_witness:
  "cache example_cached ''docs/guide.md'' = Some ''b2'' \<and> ''b2'' \<noteq> []
   \<and> position_of ''b2'' example_repository = Some 1 \<and> Suc 1 < length example_repository
   \<and> log_from (cache example_cached) ''docs/guide.md'' = Some ''b2^''
   \<and> hash (fst (example_repository ! 1)) = ''b2''
   \<and> linear_log example_repository ''docs/guide.md''
        (log_from (cache example_cached) ''docs/guide.md'')
       = Inr (touching ''docs/guide.md'' (take 1 example_repository)
              @ touching ''docs/guide.md'' [example_repository ! 1])"
proof -
  have a: "cache example_cached ''docs/guide.md'' = Some ''b2''"
    by (simp add: example_cached_def LunariaGitInstance_def)
  have b: "''b2'' \<noteq> []" by simp
  have p: "position_of ''b2'' example_repository = Some 1"
    by (simp add: example_repository_def commit_a1_def commit_b2_def commit_c3_def)
  have s: "Suc 1 < length example_repository" by (simp add: example_repository_def)
  show ?thesis
    using a b p s
      log_from_checkpoint_parent [OF a b, of engine_simple "linear_log example_repository"
        isMatch_simple]
    by auto
qed

section \<open>Force mode\<close>

text \<open>In force mode no call writes to the cache: a run leaves the instance as it was.\<close>

lemma getFileLatestChanges_each_force:
  "force this \<Longrightarrow> getFileLatestChanges_each engine log isMatch this paths = Inr (rs, this')
     \<Longrightarrow> this' = this"
proof (induction paths arbitrary: rs)
  case Nil
  then show ?case by simp
next
  case (Cons path paths)
  from Cons.prems(2) obtain r s rs' where
    g: "getFileLatestChanges engine log isMatch this path = Inr (r, s)" and
    e: "getFileLatestChanges_each engine log isMatch s paths = Inr (rs', this')"
    by (auto split: sum.splits)
  have "s = this" using getFileLatestChanges_force [OF Cons.prems(1) g] .
  with e show ?case using Cons.IH [OF Cons.prems(1)] by simp
qed

text \<open>
  For paths that are not names of inherited properties, a run in force mode on an empty
  cache makes every query without a lower bound: it is the run in which every query is
  replaced by the full walk.
\<close>

lemma getFileLatestChanges_each_force_full_walk:
  "force this \<Longrightarrow> cache this = Map.empty \<Longrightarrow> list_all (\<lambda>p. Object_prototype p = None) paths
     \<Longrightarrow> getFileLatestChanges_each engine log isMatch this paths
          = getFileLatestChanges_each engine (\<lambda>p f. log p None) isMatch this paths"
proof (induction paths)
  case Nil
  show ?case by simp
next
  case (Cons path paths)
  have q: "getFileLatestChanges engine log isMatch this path
             = getFileLatestChanges engine (\<lambda>p f. log p None) isMatch this path"
    using Cons.prems by (intro getFileLatestChanges_query) (simp add: log_from_def cache_get_def)
  show ?case
  proof (cases "getFileLatestChanges engine log isMatch this path")
    case (Inl e)
    then show ?thesis using q by simp
  next
    case (Inr p)
    obtain r s where p: "p = (r, s)" by (cases p)
    have s: "s = this" using getFileLatestChanges_force [OF Cons.prems(1)] Inr p by blast
    show ?thesis using Cons.IH Cons.prems Inr q p s by simp
  qed
qed

text \<open>
  Claim C8: with the force flag set, the cache starts empty and is never read, so that
  every history query is a full walk with no lower bound, and no call writes to it. The
  code does otherwise for a path named like a property every object inherits: the cache
  of the forced instance is empty, yet the read of the path \<open>constructor\<close> answers the
  inherited function, and the method queries the log with the text of that function and
  a caret as the lower bound.
\<close>

theorem force_reads_inherited_property:
  "force (LunariaGitInstance cfg True contents)
   \<and> cache (LunariaGitInstance cfg True contents) = Map.empty
   \<and> log_from (cache (LunariaGitInstance cfg True contents)) ''constructor''
       = Some ''function Object() { [native code] }^''
   \<and> getFileLatestChanges engine log isMatch (LunariaGitInstance cfg True contents)
        ''constructor''
       = getFileLatestChanges engine
           (\<lambda>p f. log p (Some ''function Object() { [native code] }^'')) isMatch
           (LunariaGitInstance cfg True contents) ''constructor''"
proof -
  have l: "log_from (cache (LunariaGitInstance cfg True contents)) ''constructor''
       = Some ''function Object() { [native code] }^''"
    by (simp add: LunariaGitInstance_def log_from_def cache_get_def Object_prototype_def)
  have "getFileLatestChanges engine log isMatch (LunariaGitInstance cfg True contents)
        ''constructor''
       = getFileLatestChanges engine
           (\<lambda>p f. log p (Some ''function Object() { [native code] }^'')) isMatch
           (LunariaGitInstance cfg True contents) ''constructor''"
    by (rule getFileLatestChanges_query) (simp add: l)
  then show ?thesis using l by (simp add: LunariaGitInstance_def)
qed

section \<open>An empty keyword list\<close>

text \<open>
  Claim C9: when no ignored keyword is configured, the regular expression built from the
  joined keywords matches every message, the resolver returns nothing for every commit
  sequence, and every result of the method has \<open>latestTrackedChange\<close> equal to
  \<open>latestChange\<close>.
\<close>

theorem no_keywords_veto_everything:
  assumes "ignoredKeywords t = []"
  shows "match_i msg (ignoredKeywordsRe t)
    \<and> RegExp_i engine (ignoredKeywordsRe t) = Inr (\<lambda>s. match_i s (ignoredKeywordsRe t))
    \<and> findLatestTrackedCommit engine isMatch t path commits = Inr None
    \<and> (\<forall>r this'. config this = t
            \<and> getFileLatestChanges engine log isMatch this path = Inr (r, this')
          \<longrightarrow> latestTrackedChange r = latestChange r)"
proof -
  have m: "\<And>s. match_i s (ignoredKeywordsRe t)"
    using assms by (simp add: ignoredKeywordsRe_def match_i_empty)
  have c: "RegExp_i engine (ignoredKeywordsRe t) = Inr (\<lambda>s. match_i s (ignoredKeywordsRe t))"
    using assms by (simp add: RegExp_i_def ignoredKeywordsRe_def plain_fragment_def)
  have "list_all (\<lambda>c. tracked_cb isMatch (\<lambda>s. match_i s (ignoredKeywordsRe t)) path c = Inr False)
          cs" for cs
    by (simp add: list_all_iff tracked_cb_vetoed m)
  then have "find_js (tracked_cb isMatch (\<lambda>s. match_i s (ignoredKeywordsRe t)) path) cs
               = Inr None" for cs
    by (rule find_js_all_False)
  then have n: "findLatestTrackedCommit engine isMatch t path cs = Inr None" for cs
    by (simp add: findLatestTrackedCommit_compiled [OF c])
  show ?thesis using m c n
    by (auto simp: getFileLatestChanges_def Let_def latest_def split: sum.splits list.splits)
qed

theorem no_keywords_veto_everything_witness:
  "ignoredKeywords \<lparr>ignoredKeywords = []\<rparr> = []
   \<and> match_i ''Add guide'' (ignoredKeywordsRe \<lparr>ignoredKeywords = []\<rparr>)
   \<and> findLatestTrackedCommit engine_simple isMatch_simple \<lparr>ignoredKeywords = []\<rparr>
        ''docs/guide.md'' [commit_b2, commit_a1] = Inr None
   \<and> (\<exists>r this'. getFileLatestChanges engine_simple (linear_log example_repository)
          isMatch_simple example_no_keywords ''docs/guide.md'' = Inr (r, this')
        \<and> latestTrackedChange r = latestChange r)"
proof -
  have e: "ignoredKeywords \<lparr>ignoredKeywords = []\<rparr> = []" by simp
  have c: "config example_no_keywords = \<lparr>ignoredKeywords = []\<rparr>"
    by (simp add: example_no_keywords_def LunariaGitInstance_def)
  have "log_from (cache example_no_keywords) ''docs/guide.md'' = None" by code_simp
  moreover have "linear_log example_repository ''docs/guide.md'' None
                   = Inr [commit_c3, commit_b2, commit_a1]"
    by code_simp
  ultimately have l: "linear_log example_repository ''docs/guide.md''
             (log_from (cache example_no_keywords) ''docs/guide.md'')
           = Inr [commit_c3, commit_b2, commit_a1]"
    by simp
  have n: "findLatestTrackedCommit engine_simple isMatch_simple \<lparr>ignoredKeywords = []\<rparr>
             ''docs/guide.md'' [commit_c3, commit_b2, commit_a1] = Inr None"
    using no_keywords_veto_everything [OF e] by blast
  obtain r this' where g: "getFileLatestChanges engine_simple (linear_log example_repository)
          isMatch_simple example_no_keywords ''docs/guide.md'' = Inr (r, this')"
    using l n c by (simp add: getFileLatestChanges_def latest_def)
  show ?thesis
    using e c g
      no_keywords_veto_everything [OF e, of "''Add guide''" engine_simple isMatch_simple
        "''docs/guide.md''" "[commit_b2, commit_a1]" example_no_keywords
        "linear_log example_repository"]
    by auto
qed

section \<open>Which field each test reads\<close>

text \<open>
  Claim C10: the keyword veto reads only the message of a commit and the directive
  extraction reads only its body. With \<open>re\<close> the test of the compiled keywords, the verdict
  on a commit depends on the message only through \<open>re\<close> and on the body only through the
  directive match; so a commit whose message does not match \<open>re\<close> and whose body has no
  directive is tracked and returned, whatever keyword its body holds and whatever
  directive its message holds.
\<close>

theorem veto_reads_message_directive_reads_body:
  "(body c' = body c \<and> re (message c') = re (message c)
      \<longrightarrow> tracked_cb isMatch re path c' = tracked_cb isMatch re path c)
   \<and> (message c' = message c
      \<and> match_trackerDirectivesRe (body c') = match_trackerDirectivesRe (body c)
      \<longrightarrow> tracked_cb isMatch re path c' = tracked_cb isMatch re path c)
   \<and> (RegExp_i engine (ignoredKeywordsRe t) = Inr re
      \<and> \<not> re (message c) \<and> match_trackerDirectivesRe (body c) = None
      \<longrightarrow> tracked_cb isMatch re path c = Inr True
        \<and> findLatestTrackedCommit engine isMatch t path (c # cs) = Inr (Some c))"
  by (simp add: tracked_cb_def findLatestTrackedCommit_def)

lemma example_e5_keyword_in_body:
  "example_pattern_re (body commit_e5)
   \<and> \<not> example_pattern_re (message commit_e5)
   \<and> match_trackerDirectivesRe (body commit_e5) = None"
  by code_simp

lemma example_d4_directive_in_message:
  "match_trackerDirectivesRe (message commit_d4)
     = Some \<lparr>directive = ''@lunaria-track'', pathsOrGlobs = Some ''docs/other.md''\<rparr>
   \<and> isMatch_simple ''docs/guide.md'' ''docs/other.md'' = Inr False
   \<and> \<not> example_pattern_re (message commit_d4)
   \<and> match_trackerDirectivesRe (body commit_d4) = None"
  by code_simp

lemma example_a1_plain:
  "\<not> example_pattern_re (message commit_a1)
   \<and> match_trackerDirectivesRe (body commit_a1) = None"
  by code_simp

theorem veto_reads_message_directive_reads_body_witness:
  "(body commit_d4 = body commit_a1
     \<and> example_pattern_re (message commit_d4) = example_pattern_re (message commit_a1)
     \<and> tracked_cb isMatch_simple example_pattern_re ''docs/guide.md'' commit_d4
         = tracked_cb isMatch_simple example_pattern_re ''docs/guide.md'' commit_a1)
   \<and> (message commit_e5 = message commit_a1
     \<and> match_trackerDirectivesRe (body commit_e5) = match_trackerDirectivesRe (body commit_a1)
     \<and> tracked_cb isMatch_simple example_pattern_re ''docs/guide.md'' commit_e5
         = tracked_cb isMatch_simple example_pattern_re ''docs/guide.md'' commit_a1)
   \<and> (RegExp_i engine_simple (ignoredKeywordsRe example_pattern_keyword) = Inr example_pattern_re
     \<and> example_pattern_re (body commit_e5)
     \<and> \<not> example_pattern_re (message commit_e5)
     \<and> match_trackerDirectivesRe (body commit_e5) = None
     \<and> findLatestTrackedCommit engine_simple isMatch_simple example_pattern_keyword
          ''docs/guide.md'' [commit_e5, commit_a1] = Inr (Some commit_e5))
   \<and> (match_trackerDirectivesRe (message commit_d4)
         = Some \<lparr>directive = ''@lunaria-track'', pathsOrGlobs = Some ''docs/other.md''\<rparr>
     \<and> \<not> example_pattern_re (message commit_d4)
     \<and> match_trackerDirectivesRe (body commit_d4) = None
     \<and> findLatestTrackedCommit engine_simple isMatch_simple example_pattern_keyword
          ''docs/guide.md'' [commit_d4, commit_a1] = Inr (Some commit_d4))"
proof -
  have a: "body commit_d4 = body commit_a1" by (simp add: commit_d4_def commit_a1_def)
  have b: "example_pattern_re (message commit_d4) = example_pattern_re (message commit_a1)"
    using example_d4_directive_in_message example_a1_plain by simp
  have c: "message commit_e5 = message commit_a1" by (simp add: commit_e5_def commit_a1_def)
  have d: "match_trackerDirectivesRe (body commit_e5) = match_trackerDirectivesRe (body commit_a1)"
    using example_e5_keyword_in_body example_a1_plain by simp
  have x: "tracked_cb isMatch_simple example_pattern_re ''docs/guide.md'' commit_d4
         = tracked_cb isMatch_simple example_pattern_re ''docs/guide.md'' commit_a1"
    using a b veto_reads_message_directive_reads_body
        [of commit_d4 commit_a1 example_pattern_re isMatch_simple "''docs/guide.md''"]
    by blast
  have y: "tracked_cb isMatch_simple example_pattern_re ''docs/guide.md'' commit_e5
         = tracked_cb isMatch_simple example_pattern_re ''docs/guide.md'' commit_a1"
    using c d veto_reads_message_directive_reads_body
        [of commit_e5 commit_a1 example_pattern_re isMatch_simple "''docs/guide.md''"]
    by blast
  have z: "findLatestTrackedCommit engine_simple isMatch_simple example_pattern_keyword
          ''docs/guide.md'' [commit_e5, commit_a1] = Inr (Some commit_e5)"
    using example_e5_keyword_in_body example_pattern_compiled
      veto_reads_message_directive_reads_body
        [of commit_e5 commit_e5 example_pattern_re isMatch_simple "''docs/guide.md''"
          engine_simple example_pattern_keyword "[commit_a1]"]
    by blast
  have w: "findLatestTrackedCommit engine_simple isMatch_simple example_pattern_keyword
          ''docs/guide.md'' [commit_d4, commit_a1] = Inr (Some commit_d4)"
    using example_d4_directive_in_message example_pattern_compiled
      veto_reads_message_directive_reads_body
        [of commit_d4 commit_d4 example_pattern_re isMatch_simple "''docs/guide.md''"
          engine_simple example_pattern_keyword "[commit_a1]"]
    by blast
  show ?thesis
    using a b c d x y z w example_e5_keyword_in_body example_d4_directive_in_message
      example_pattern_compiled
    by (intro conjI) simp_all
qed

end
